theory Spec2Isabelle
  imports Main "HOL-Library.Sublist"
begin

section \<open>The share-link lifecycle of the file controller\<close>

text \<open>
  A shallow embedding of \<^verbatim>\<open>src/server/src/controllers/file.controller.js\<close>: the
  request handlers that create, resolve, protect, expire and delete shared files.
  Every handler is a function from the environment, the request's parameters and the
  state to a response and the new state. The response is \<open>Inl\<close> of an error for every
  non-2xx \<^verbatim>\<open>res.status(..).json(..)\<close> and \<open>Inr\<close> of the payload otherwise.

  What the model fixes:
  \<^item> Times are milliseconds since the epoch, as \<open>int\<close>. One handler call reads one
    clock value (\<open>now\<close>) for every \<^verbatim>\<open>Date.now()\<close> and \<^verbatim>\<open>new Date()\<close> in it.
  \<^item> Numbers are integers: a JavaScript number that is not an integer has no value here.
  \<^item> Strings are ASCII strings.
  \<^item> The two collections and the users are lists of documents in insertion order, and
    the store itself never fails: a \<^verbatim>\<open>_id\<close> is a natural number handed out by the
    store's counter, and a \<^verbatim>\<open>fileId\<close> of a request is already such a number.
    The Mongoose schemas are not part of the source. Their defaults are taken to be
    falsy: \<open>isPasswordProtected = False\<close> and \<open>downloadedContent = 0\<close> stand for an unset
    field as well, which every reader of those fields treats alike
    (\<^verbatim>\<open>file.isPasswordProtected || false\<close>, \<^verbatim>\<open>file.downloadedContent || 0\<close>).
    The time stamps \<^verbatim>\<open>createdAt\<close> and \<^verbatim>\<open>updatedAt\<close> are the store's own and are left out.
    A document is saved as the handler left it (no hook of a schema changes it), except
    that the store refuses a document whose \<^verbatim>\<open>expiresAt\<close> is an invalid date.
  \<^item> The object store is the set of keys it holds; a command sent to it may throw
    (\<open>s3_fault\<close>), since it is a network call. Presigning a URL is a local
    computation and is a function of the environment.
\<close>

subsection \<open>JavaScript values of a request body\<close>

datatype jsval = JUndefined | JNull | JBool bool | JNum int | JStr string

text \<open>Truthiness, as \<^verbatim>\<open>!x\<close> and \<^verbatim>\<open>if (x)\<close> read it.\<close>

fun truthy :: "jsval \<Rightarrow> bool" where
  "truthy JUndefined = False"
| "truthy JNull = False"
| "truthy (JBool b) = b"
| "truthy (JNum n) = (n \<noteq> 0)"
| "truthy (JStr s) = (s \<noteq> [])"

fun typeof :: "jsval \<Rightarrow> string" where
  "typeof JUndefined = ''undefined''"
| "typeof JNull = ''object''"
| "typeof (JBool b) = ''boolean''"
| "typeof (JNum n) = ''number''"
| "typeof (JStr s) = ''string''"







text \<open>A template literal prints an undefined value as \<^verbatim>\<open>undefined\<close>.\<close>

definition template :: "string option \<Rightarrow> string" where
  "template v = (case v of None \<Rightarrow> ''undefined'' | Some s \<Rightarrow> s)"

subsection \<open>Documents, state and environment\<close>

record filedoc =
  fid :: nat
  path :: string
  name :: string
  ftype :: string
  fsize :: nat
  hasExpiry :: bool
  expiresAt :: "int option"
  status :: string
  shortUrl :: string
  createdBy :: string
  password :: "string option"
  isPasswordProtected :: bool
  downloadedContent :: int

record user =
  uid :: string
  fullname :: string
  totalUploads :: int
  totalDownloads :: int
  imageCount :: int
  videoCount :: int
  documentCount :: int

text \<open>A file of \<^verbatim>\<open>req.files\<close> (multer); its bytes are not modelled.\<close>

record upload =
  originalname :: string
  mimetype :: string
  usize :: nat

text \<open>The multipart body of an upload request.\<close>

record upload_body =
  b_isPassword :: jsval
  b_password :: jsval
  b_hasExpiry :: jsval
  b_expiresAt :: jsval
  b_userId :: string

datatype s3cmd =
    PutObjectCommand "string option" string
  | DeleteObjectCommand "string option" string

record state =
  files :: "filedoc list"
  guestFiles :: "filedoc list"
  users :: "user list"
  blobs :: "string list"
  next_id :: nat
  drawn :: nat

text \<open>
  The environment of one handler call: the clock, \<^verbatim>\<open>process.env\<close>, and the libraries
  the controller calls. \<open>shortid e n\<close> is the value of the \<open>n\<close>-th call of
  \<^verbatim>\<open>shortid.generate()\<close>; the state counts the calls (\<open>drawn\<close>).
\<close>

record env =
  now :: int
  S3_ENDPOINT :: "string option"
  AWS_BUCKET_NAME :: "string option"
  BASE_URL :: "string option"
  shortid :: "nat \<Rightarrow> string"
  extname :: "string \<Rightarrow> string"
  bcrypt_hash :: "string \<Rightarrow> string"
  bcrypt_compare :: "string \<Rightarrow> string \<Rightarrow> bool"
  getSignedUrl :: "string option \<Rightarrow> string \<Rightarrow> string \<Rightarrow> nat \<Rightarrow> string"
  s3_fault :: "s3cmd \<Rightarrow> string option"

text \<open>
  The responses that are not a success. \<open>status_code\<close> gives the HTTP status each one is
  sent with. \<open>Internal\<close> and \<open>UploadFailed\<close> carry the \<^verbatim>\<open>detail\<close> of the response, the
  message of the exception caught; \<open>ServerError\<close> is the 500 of the handlers that send
  no detail.
\<close>

datatype error =
    NoFilesUploaded
  | UserNotFound
  | NotFound
  | Unavailable
  | Expired
  | PasswordRequired
  | IncorrectPassword
  | AlreadyDeleted
  | NoFilesFound
  | NewPasswordRequired
  | InvalidLink
  | LinkExpired
  | NotProtected
  | WrongPassword
  | UploadFailed string
  | Internal string
  | ServerError

text \<open>
  The messages they stand for: \<open>NoFilesUploaded\<close> is \<^verbatim>\<open>No files uploaded\<close>,
  \<open>UserNotFound\<close> \<^verbatim>\<open>User not found\<close>, \<open>NotFound\<close> \<^verbatim>\<open>File not found\<close>, \<open>Unavailable\<close>
  \<^verbatim>\<open>This file is not available for download\<close>, \<open>Expired\<close> \<^verbatim>\<open>This file has expired\<close>,
  \<open>PasswordRequired\<close> \<^verbatim>\<open>Password required\<close>, \<open>IncorrectPassword\<close> and \<open>WrongPassword\<close>
  \<^verbatim>\<open>Incorrect password\<close> (of the download by id and of the verification),
  \<open>AlreadyDeleted\<close> \<^verbatim>\<open>File already deleted\<close>, \<open>NoFilesFound\<close> \<^verbatim>\<open>No files found\<close>,
  \<open>NewPasswordRequired\<close> \<^verbatim>\<open>New password is required\<close>, \<open>InvalidLink\<close>
  \<^verbatim>\<open>Invalid or expired link\<close>, \<open>LinkExpired\<close> the \<^verbatim>\<open>This file has expired.\<close> of
  \<^verbatim>\<open>resolveShareLink\<close>, and \<open>NotProtected\<close> \<^verbatim>\<open>File not protected or not found\<close>.
\<close>

fun status_code :: "error \<Rightarrow> nat" where
  "status_code NoFilesUploaded = 400"
| "status_code UserNotFound = 404"
| "status_code NotFound = 404"
| "status_code Unavailable = 403"
| "status_code Expired = 410"
| "status_code PasswordRequired = 401"
| "status_code IncorrectPassword = 403"
| "status_code AlreadyDeleted = 400"
| "status_code NoFilesFound = 404"
| "status_code NewPasswordRequired = 400"
| "status_code InvalidLink = 404"
| "status_code LinkExpired = 410"
| "status_code NotProtected = 400"
| "status_code WrongPassword = 401"
| "status_code (UploadFailed d) = 500"
| "status_code (Internal d) = 500"
| "status_code ServerError = 500"

subsection \<open>The store\<close>

definition findById :: "nat \<Rightarrow> filedoc list \<Rightarrow> filedoc option" where
  "findById i fs = find (\<lambda>f. fid f = i) fs"

definition findOne_shortUrl :: "string \<Rightarrow> filedoc list \<Rightarrow> filedoc option" where
  "findOne_shortUrl u fs = find (\<lambda>f. shortUrl f = u) fs"

definition findUserById :: "string \<Rightarrow> user list \<Rightarrow> user option" where
  "findUserById i us = find (\<lambda>u. uid u = i) us"

text \<open>\<^verbatim>\<open>doc.save()\<close> of a document read from the store writes it back to the document
  of its \<^verbatim>\<open>_id\<close>.\<close>

fun save :: "filedoc \<Rightarrow> filedoc list \<Rightarrow> filedoc list" where
  "save f [] = []"
| "save f (g # gs) = (if fid g = fid f then f # gs else g # save f gs)"

fun save_user :: "user \<Rightarrow> user list \<Rightarrow> user list" where
  "save_user u [] = []"
| "save_user u (v # vs) = (if uid v = uid u then u # vs else v # save_user u vs)"

fun deleteOne :: "nat \<Rightarrow> filedoc list \<Rightarrow> filedoc list" where
  "deleteOne i [] = []"
| "deleteOne i (g # gs) = (if fid g = i then gs else g # deleteOne i gs)"

text \<open>\<^verbatim>\<open>minioClient.send(command)\<close>: the exception's message, or the state with the
  command's effect on the bucket.\<close>

definition minio_send :: "env \<Rightarrow> s3cmd \<Rightarrow> state \<Rightarrow> string + state" where
  "minio_send e cmd s =
     (case s3_fault e cmd of
        Some msg \<Rightarrow> Inl msg
      | None \<Rightarrow>
          (case cmd of
             PutObjectCommand b k \<Rightarrow> Inr (s\<lparr>blobs := List.insert k (blobs s)\<rparr>)
           | DeleteObjectCommand b k \<Rightarrow> Inr (s\<lparr>blobs := removeAll k (blobs s)\<rparr>)))"

subsection \<open>Helpers\<close>

definition buildKey :: "string \<Rightarrow> string" where
  "buildKey fileName = ''file-share-app/'' @ fileName"


definition signedDownloadUrl :: "env \<Rightarrow> string option \<Rightarrow> string \<Rightarrow> string \<Rightarrow> nat \<Rightarrow> string" where
  "signedDownloadUrl e bucket key fileName expiresInSec =
     getSignedUrl e bucket key
       (''attachment; filename='' @ [CHR 0x22] @ fileName @ [CHR 0x22]) expiresInSec"

text \<open>The test \<^verbatim>\<open>file.expiresAt && new Date(file.expiresAt) < new Date()\<close>, which the
  handlers write out each time.\<close>

definition expiry_passed :: "env \<Rightarrow> filedoc \<Rightarrow> bool" where
  "expiry_passed e f = (case expiresAt f of None \<Rightarrow> False | Some t \<Rightarrow> t < now e)"


text \<open>\<^verbatim>\<open>bcrypt.hash(s, 10)\<close> and \<^verbatim>\<open>bcrypt.compare(s, hash)\<close> reject an argument that is
  not a string with an exception.\<close>

definition hash_password :: "env \<Rightarrow> jsval \<Rightarrow> string + string" where
  "hash_password e p =
     (case p of
        JStr s \<Rightarrow> Inr (bcrypt_hash e s)
      | _ \<Rightarrow> Inl (''Illegal arguments: '' @ typeof p @ '', number''))"

definition compare_password :: "env \<Rightarrow> jsval \<Rightarrow> string option \<Rightarrow> string + bool" where
  "compare_password e p h =
     (case (p, h) of
        (JStr s, Some hash) \<Rightarrow> Inr (bcrypt_compare e s hash)
      | (_, Some hash) \<Rightarrow> Inl (''Illegal arguments: '' @ typeof p @ '', string'')
      | (_, None) \<Rightarrow> Inl (''Illegal arguments: '' @ typeof p @ '', undefined''))"

subsection \<open>Download by short link\<close>

record download_info =
  r_downloadUrl :: string
  r_id :: nat
  r_name :: string
  r_size :: nat
  r_type :: string
  r_path :: string
  r_isPasswordProtected :: bool
  r_expiresAt :: "int option"
  r_status :: string
  r_shortUrl :: string
  r_downloadedContent :: int
  r_uploadedBy :: string

definition or_default :: "string \<Rightarrow> string \<Rightarrow> string" where
  "or_default s d = (if s = [] then d else s)"

definition downloadInfo :: "env \<Rightarrow> string \<Rightarrow> state \<Rightarrow> (error + download_info) \<times> state" where
  "downloadInfo e shortCode s =
     (case findOne_shortUrl (''/f/'' @ shortCode) (files s) of
        None \<Rightarrow> (Inl NotFound, s)
      | Some file \<Rightarrow>
          if status file \<noteq> ''active'' then (Inl Unavailable, s)
          else if expiry_passed e file then
            (Inl Expired, s\<lparr>files := save (file\<lparr>status := ''expired''\<rparr>) (files s)\<rparr>)
          else
            let key = buildKey (name file);
                downloadUrl = signedDownloadUrl e (AWS_BUCKET_NAME e) key (name file) (24 * 60 * 60);
                file1 = file\<lparr>downloadedContent := downloadedContent file + 1\<rparr>;
                s1 = s\<lparr>files := save file1 (files s)\<rparr>;
                found = findUserById (createdBy file1) (users s1);
                s2 = (case found of
                        None \<Rightarrow> s1
                      | Some u \<Rightarrow>
                          s1\<lparr>users := save_user (u\<lparr>totalDownloads := totalDownloads u + 1\<rparr>) (users s1)\<rparr>)
            in (Inr \<lparr>r_downloadUrl = downloadUrl, r_id = fid file1, r_name = name file1,
                     r_size = fsize file1, r_type = or_default (ftype file1) ''file'',
                     r_path = path file1, r_isPasswordProtected = isPasswordProtected file1,
                     r_expiresAt = expiresAt file1, r_status = or_default (status file1) ''active'',
                     r_shortUrl = shortUrl file1, r_downloadedContent = downloadedContent file1,
                     r_uploadedBy = (case found of None \<Rightarrow> ''Unknown''
                                     | Some u \<Rightarrow> or_default (fullname u) ''Unknown'')\<rparr>, s2))"

definition guestDownloadInfo :: "env \<Rightarrow> string \<Rightarrow> state \<Rightarrow> (error + download_info) \<times> state" where
  "guestDownloadInfo e shortCode s =
     (case findOne_shortUrl (''/g/'' @ shortCode) (guestFiles s) of
        None \<Rightarrow> (Inl NotFound, s)
      | Some file \<Rightarrow>
          if status file \<noteq> ''active'' then (Inl Unavailable, s)
          else if expiry_passed e file then
            (Inl Expired, s\<lparr>guestFiles := save (file\<lparr>status := ''expired''\<rparr>) (guestFiles s)\<rparr>)
          else
            let key = buildKey (name file);
                downloadUrl = signedDownloadUrl e (AWS_BUCKET_NAME e) key (name file) (24 * 60 * 60);
                file1 = file\<lparr>downloadedContent := downloadedContent file + 1\<rparr>;
                s1 = s\<lparr>guestFiles := save file1 (guestFiles s)\<rparr>
            in (Inr \<lparr>r_downloadUrl = downloadUrl, r_id = fid file1, r_name = name file1,
                     r_size = fsize file1, r_type = or_default (ftype file1) ''file'',
                     r_path = path file1, r_isPasswordProtected = isPasswordProtected file1,
                     r_expiresAt = expiresAt file1, r_status = or_default (status file1) ''active'',
                     r_shortUrl = shortUrl file1, r_downloadedContent = downloadedContent file1,
                     r_uploadedBy = createdBy file1\<rparr>, s1))"

subsection \<open>Download by id\<close>

definition downloadFile :: "env \<Rightarrow> nat \<Rightarrow> jsval \<Rightarrow> state \<Rightarrow> (error + string) \<times> state" where
  "downloadFile e fileId pw s =
     (case findById fileId (files s) of
        None \<Rightarrow> (Inl NotFound, s)
      | Some file \<Rightarrow>
          if status file \<noteq> ''active'' then (Inl Unavailable, s)
          else if expiry_passed e file then (Inl Expired, s)
          else if isPasswordProtected file \<and> \<not> truthy pw then (Inl PasswordRequired, s)
          else
            (case (if isPasswordProtected file then compare_password e pw (password file)
                   else Inr True) of
               Inl msg \<Rightarrow> (Inl (Internal msg), s)
             | Inr False \<Rightarrow> (Inl IncorrectPassword, s)
             | Inr True \<Rightarrow>
                 let key = buildKey (name file);
                     downloadUrl = signedDownloadUrl e (AWS_BUCKET_NAME e) key (name file) (24 * 60 * 60);
                     file1 = file\<lparr>downloadedContent := downloadedContent file + 1\<rparr>;
                     s1 = s\<lparr>files := save file1 (files s)\<rparr>;
                     s2 = (case findUserById (createdBy file1) (users s1) of
                             None \<Rightarrow> s1
                           | Some u \<Rightarrow>
                               s1\<lparr>users := save_user (u\<lparr>totalDownloads := totalDownloads u + 1\<rparr>) (users s1)\<rparr>)
                 in (Inr downloadUrl, s2)))"

subsection \<open>Upload\<close>









subsection \<open>Delete\<close>

definition deleteFile :: "env \<Rightarrow> nat \<Rightarrow> state \<Rightarrow> (error + unit) \<times> state" where
  "deleteFile e fileId s =
     (case findById fileId (files s) of
        None \<Rightarrow> (Inl NotFound, s)
      | Some file \<Rightarrow>
          if status file = ''deleted'' then (Inl AlreadyDeleted, s)
          else
            let key = buildKey (name file)
            in case minio_send e (DeleteObjectCommand (AWS_BUCKET_NAME e) key) s of
                 Inl msg \<Rightarrow> (Inl (Internal msg), s)
               | Inr s1 \<Rightarrow> (Inr (), s1\<lparr>files := deleteOne fileId (files s1)\<rparr>))"

subsection \<open>Expiry\<close>


text \<open>The loop of \<^verbatim>\<open>updateAllFileExpiry\<close> over the documents read by \<^verbatim>\<open>File.find()\<close>:
  the documents pushed to \<^verbatim>\<open>updatedFiles\<close> so far, and the collection.\<close>

fun sweep_loop ::
  "env \<Rightarrow> filedoc list \<Rightarrow> filedoc list \<Rightarrow> filedoc list \<Rightarrow> filedoc list \<times> filedoc list" where
  "sweep_loop e [] updatedFiles coll = (updatedFiles, coll)"
| "sweep_loop e (file # rest) updatedFiles coll =
     (if status file = ''deleted'' then sweep_loop e rest updatedFiles coll
      else
        let file1 =
              (if expiry_passed e file then file\<lparr>status := ''expired'', hasExpiry := True\<rparr>
               else file\<lparr>expiresAt := Some (now e + 10 * 24 * 60 * 60 * 1000), hasExpiry := True\<rparr>)
        in sweep_loop e rest (updatedFiles @ [file1]) (save file1 coll))"

definition updateAllFileExpiry :: "env \<Rightarrow> state \<Rightarrow> (error + filedoc list) \<times> state" where
  "updateAllFileExpiry e s =
     (if files s = [] then (Inl NoFilesFound, s)
      else
        (case sweep_loop e (files s) [] (files s) of
           (updatedFiles, coll) \<Rightarrow> (Inr updatedFiles, s\<lparr>files := coll\<rparr>)))"

text \<open>What the body of that loop makes of a document that is not deleted; the facts
  about the loop below are stated with it.\<close>

definition swept :: "env \<Rightarrow> filedoc \<Rightarrow> filedoc" where
  "swept e file =
     (if expiry_passed e file then file\<lparr>status := ''expired'', hasExpiry := True\<rparr>
      else file\<lparr>expiresAt := Some (now e + 10 * 24 * 60 * 60 * 1000), hasExpiry := True\<rparr>)"

subsection \<open>Password\<close>

definition updateFilePassword :: "env \<Rightarrow> nat \<Rightarrow> jsval \<Rightarrow> state \<Rightarrow> (error + unit) \<times> state" where
  "updateFilePassword e fileId newPassword s =
     (case findById fileId (files s) of
        None \<Rightarrow> (Inl NotFound, s)
      | Some file \<Rightarrow>
          if \<not> truthy newPassword then (Inl NewPasswordRequired, s)
          else
            (case hash_password e newPassword of
               Inl msg \<Rightarrow> (Inl ServerError, s)
             | Inr h \<Rightarrow> (Inr (), s\<lparr>files := save (file\<lparr>password := Some h\<rparr>) (files s)\<rparr>)))"

definition verifyFilePassword :: "env \<Rightarrow> string \<Rightarrow> jsval \<Rightarrow> state \<Rightarrow> (error + unit) \<times> state" where
  "verifyFilePassword e shortCode pw s =
     (case findOne_shortUrl (''/f/'' @ shortCode) (files s) of
        None \<Rightarrow> (Inl NotProtected, s)
      | Some file \<Rightarrow>
          if \<not> isPasswordProtected file then (Inl NotProtected, s)
          else
            (case compare_password e pw (password file) of
               Inl msg \<Rightarrow> (Inl ServerError, s)
             | Inr isMatch \<Rightarrow> if \<not> isMatch then (Inl WrongPassword, s) else (Inr (), s)))"

definition verifyGuestFilePassword ::
  "env \<Rightarrow> string \<Rightarrow> jsval \<Rightarrow> state \<Rightarrow> (error + unit) \<times> state" where
  "verifyGuestFilePassword e shortCode pw s =
     (case findOne_shortUrl (''/g/'' @ shortCode) (guestFiles s) of
        None \<Rightarrow> (Inl NotProtected, s)
      | Some file \<Rightarrow>
          if \<not> isPasswordProtected file then (Inl NotProtected, s)
          else
            (case compare_password e pw (password file) of
               Inl msg \<Rightarrow> (Inl ServerError, s)
             | Inr isMatch \<Rightarrow> if \<not> isMatch then (Inl WrongPassword, s) else (Inr (), s)))"

subsection \<open>Share links\<close>




subsection \<open>A concrete environment and state\<close>

text \<open>
  An environment and a state on which the handlers are run below: the clock stands at
  1000000, the libraries are simple stand-ins, and the store holds one user with one
  shared file, the same file once more as a guest share.
\<close>

definition ex_env :: env where
  "ex_env =
     \<lparr>now = 1000000, S3_ENDPOINT = Some ''http://localhost:9000/'',
      AWS_BUCKET_NAME = Some ''pastebox'', BASE_URL = Some ''http://localhost:5173'',
      shortid = (\<lambda>n. ''k'' @ replicate n (CHR ''7'')),
      extname = (\<lambda>s. if suffix ''.pdf'' s then ''.pdf'' else []),
      bcrypt_hash = (\<lambda>p. ''$2a$10$'' @ p),
      bcrypt_compare = (\<lambda>p h. h = ''$2a$10$'' @ p),
      getSignedUrl = (\<lambda>b k d n. ''http://localhost:9000/'' @ template b @ ''/'' @ k @ ''?signed''),
      s3_fault = (\<lambda>c. None)\<rparr>"

definition ex_file :: filedoc where
  "ex_file =
     \<lparr>fid = 1, path = ''http://localhost:9000/pastebox/file-share-app/report_v1.pdf_a1.pdf'',
      name = ''report_v1.pdf_a1.pdf'', ftype = ''application/pdf'', fsize = 500000,
      hasExpiry = False, expiresAt = Some 2000000, status = ''active'',
      shortUrl = ''/f/abc'', createdBy = ''u1'', password = None,
      isPasswordProtected = False, downloadedContent = 0\<rparr>"

definition ex_user :: user where
  "ex_user = \<lparr>uid = ''u1'', fullname = ''Ada'', totalUploads = 1, totalDownloads = 0,
              imageCount = 0, videoCount = 0, documentCount = 1\<rparr>"

definition ex_state :: state where
  "ex_state =
     \<lparr>files = [ex_file],
      guestFiles = [ex_file\<lparr>shortUrl := ''/g/xyz'', createdBy := ''guest_q''\<rparr>],
      users = [ex_user],
      blobs = [''file-share-app/report_v1.pdf_a1.pdf''], next_id = 2, drawn = 0\<rparr>"

text \<open>The same store with the file's expiry set to \<open>t\<close>.\<close>

definition ex_state_expiring :: "int \<Rightarrow> state" where
  "ex_state_expiring t =
     ex_state\<lparr>files := [ex_file\<lparr>expiresAt := Some t\<rparr>],
              guestFiles := [ex_file\<lparr>shortUrl := ''/g/xyz'', createdBy := ''guest_q'',
                                     expiresAt := Some t\<rparr>]\<rparr>"

text \<open>The same store with the file protected by the password \<^verbatim>\<open>secret\<close>.\<close>

definition ex_protected :: filedoc where
  "ex_protected = ex_file\<lparr>password := Some ''$2a$10$secret'', isPasswordProtected := True\<rparr>"

definition ex_state_protected :: state where
  "ex_state_protected =
     ex_state\<lparr>files := [ex_protected],
              guestFiles := [ex_protected\<lparr>shortUrl := ''/g/xyz'', createdBy := ''guest_q''\<rparr>]\<rparr>"

text \<open>A collection of three files: one deleted, one whose expiry has passed at the
  example clock, and one that is live.\<close>

definition ex_state_mixed :: state where
  "ex_state_mixed =
     ex_state\<lparr>files := [ex_file\<lparr>status := ''deleted''\<rparr>,
                         ex_file\<lparr>fid := 2, shortUrl := ''/f/old'', expiresAt := Some 999999\<rparr>,
                         ex_file\<lparr>fid := 3, shortUrl := ''/f/new''\<rparr>]\<rparr>"

text \<open>An upload of one file, protected by a password and without an expiry of its own.\<close>

definition ex_upload :: upload where
  "ex_upload = \<lparr>originalname = ''report  v1.pdf'', mimetype = ''application/pdf'',
                 usize = 500000\<rparr>"

definition ex_body :: upload_body where
  "ex_body = \<lparr>b_isPassword = JStr ''true'', b_password = JStr ''secret'',
               b_hasExpiry = JStr ''false'', b_expiresAt = JUndefined, b_userId = ''u1''\<rparr>"

section \<open>Facts about the store and the handlers' branches\<close>

lemmas ex_defs = ex_env_def ex_file_def ex_user_def ex_state_def ex_state_expiring_def
  ex_protected_def ex_state_protected_def ex_state_mixed_def ex_upload_def ex_body_def

lemma find_save:
  "find P fs = Some f \<Longrightarrow> fid f' = fid f \<Longrightarrow> P f' \<Longrightarrow> find P (save f' fs) = Some f'"
  by (induction fs) (auto split: if_splits)




lemma downloadInfo_inactive:
  "findOne_shortUrl (''/f/'' @ c) (files s) = Some f \<Longrightarrow> status f \<noteq> ''active'' \<Longrightarrow>
   downloadInfo e c s = (Inl Unavailable, s)"
  by (simp add: downloadInfo_def)

lemma downloadInfo_expired:
  "findOne_shortUrl (''/f/'' @ c) (files s) = Some f \<Longrightarrow> status f = ''active'' \<Longrightarrow>
   expiry_passed e f \<Longrightarrow>
   downloadInfo e c s = (Inl Expired, s\<lparr>files := save (f\<lparr>status := ''expired''\<rparr>) (files s)\<rparr>)"
  by (simp add: downloadInfo_def)



lemma guestDownloadInfo_inactive:
  "findOne_shortUrl (''/g/'' @ c) (guestFiles s) = Some f \<Longrightarrow> status f \<noteq> ''active'' \<Longrightarrow>
   guestDownloadInfo e c s = (Inl Unavailable, s)"
  by (simp add: guestDownloadInfo_def)

lemma guestDownloadInfo_expired:
  "findOne_shortUrl (''/g/'' @ c) (guestFiles s) = Some f \<Longrightarrow> status f = ''active'' \<Longrightarrow>
   expiry_passed e f \<Longrightarrow>
   guestDownloadInfo e c s =
     (Inl Expired, s\<lparr>guestFiles := save (f\<lparr>status := ''expired''\<rparr>) (guestFiles s)\<rparr>)"
  by (simp add: guestDownloadInfo_def)


lemma expiry_passed_iff: "expiry_passed e x \<longleftrightarrow> (\<exists>t. expiresAt x = Some t \<and> t < now e)"
  by (auto simp: expiry_passed_def split: option.splits)


section \<open>The claims\<close>

subsection \<open>C1: when a short link resolves\<close>




section \<open>C2 and C3\<close>

lemma findOne_shortUrl_save:
  assumes "findOne_shortUrl u fs = Some f" and "fid f' = fid f" and "shortUrl f' = u"
  shows "findOne_shortUrl u (save f' fs) = Some f'"
  using assms unfolding findOne_shortUrl_def by (intro find_save) auto

lemma downloadFile_absent:
  "findById i (files s) = None \<Longrightarrow> downloadFile e i pw s = (Inl NotFound, s)"
  by (simp add: downloadFile_def)

lemma downloadFile_expired:
  "findById i (files s) = Some f \<Longrightarrow> status f = ''active'' \<Longrightarrow> expiry_passed e f \<Longrightarrow>
   downloadFile e i pw s = (Inl Expired, s)"
  by (simp add: downloadFile_def)




lemma downloadFile_unprotected:
  "findById i (files s) = Some f \<Longrightarrow> status f = ''active'' \<Longrightarrow> \<not> expiry_passed e f \<Longrightarrow>
   \<not> isPasswordProtected f \<Longrightarrow>
   fst (downloadFile e i pw s) =
     Inr (signedDownloadUrl e (AWS_BUCKET_NAME e) (buildKey (name f)) (name f) 86400)"
  by (simp add: downloadFile_def Let_def)

subsection \<open>C2: lazy expiry\<close>

text \<open>
  C2, as amended. On a short-code access (\<^verbatim>\<open>downloadInfo\<close>, \<^verbatim>\<open>guestDownloadInfo\<close>) to an
  active record whose \<^verbatim>\<open>expiresAt\<close> has passed, the handler sets the record's status to
  \<^verbatim>\<open>expired\<close>, saves it, and fails with Expired: the record the short code finds in the
  new store is the old one with status \<^verbatim>\<open>expired\<close>. Resolving the same code again, at any
  time, fails with Unavailable (the status is no longer \<^verbatim>\<open>active\<close>, which is tested first)
  and changes nothing.
\<close>

theorem lazy_expiry_on_short_code:
  "(findOne_shortUrl (''/f/'' @ c) (files s) = Some f \<and> status f = ''active'' \<and>
      expiresAt f = Some t \<and> t < now e \<longrightarrow>
      downloadInfo e c s =
        (Inl Expired, s\<lparr>files := save (f\<lparr>status := ''expired''\<rparr>) (files s)\<rparr>)
      \<and> findOne_shortUrl (''/f/'' @ c) (files (snd (downloadInfo e c s)))
          = Some (f\<lparr>status := ''expired''\<rparr>)
      \<and> downloadInfo e2 c (snd (downloadInfo e c s))
          = (Inl Unavailable, snd (downloadInfo e c s)))
   \<and> (findOne_shortUrl (''/g/'' @ c) (guestFiles s) = Some g \<and> status g = ''active'' \<and>
      expiresAt g = Some t \<and> t < now e \<longrightarrow>
      guestDownloadInfo e c s =
        (Inl Expired, s\<lparr>guestFiles := save (g\<lparr>status := ''expired''\<rparr>) (guestFiles s)\<rparr>)
      \<and> findOne_shortUrl (''/g/'' @ c) (guestFiles (snd (guestDownloadInfo e c s)))
          = Some (g\<lparr>status := ''expired''\<rparr>)
      \<and> guestDownloadInfo e2 c (snd (guestDownloadInfo e c s))
          = (Inl Unavailable, snd (guestDownloadInfo e c s)))"
proof (intro conjI impI)
  assume a: "findOne_shortUrl (''/f/'' @ c) (files s) = Some f \<and> status f = ''active'' \<and>
      expiresAt f = Some t \<and> t < now e"
  then have h: "findOne_shortUrl (''/f/'' @ c) (files s) = Some f" by simp
  have su: "shortUrl f = ''/f/'' @ c"
    using h by (auto simp: findOne_shortUrl_def find_Some_iff)
  have ex: "expiry_passed e f" using a by (simp add: expiry_passed_def)
  show 1: "downloadInfo e c s =
        (Inl Expired, s\<lparr>files := save (f\<lparr>status := ''expired''\<rparr>) (files s)\<rparr>)"
    using downloadInfo_expired [OF h _ ex] a by simp
  show 2: "findOne_shortUrl (''/f/'' @ c) (files (snd (downloadInfo e c s)))
          = Some (f\<lparr>status := ''expired''\<rparr>)"
    unfolding 1 using findOne_shortUrl_save [OF h, of "f\<lparr>status := ''expired''\<rparr>"] su by simp
  show "downloadInfo e2 c (snd (downloadInfo e c s))
          = (Inl Unavailable, snd (downloadInfo e c s))"
    using downloadInfo_inactive [OF 2, of e2] by simp
next
  assume a: "findOne_shortUrl (''/g/'' @ c) (guestFiles s) = Some g \<and> status g = ''active'' \<and>
      expiresAt g = Some t \<and> t < now e"
  then have h: "findOne_shortUrl (''/g/'' @ c) (guestFiles s) = Some g" by simp
  have su: "shortUrl g = ''/g/'' @ c"
    using h by (auto simp: findOne_shortUrl_def find_Some_iff)
  have ex: "expiry_passed e g" using a by (simp add: expiry_passed_def)
  show 1: "guestDownloadInfo e c s =
        (Inl Expired, s\<lparr>guestFiles := save (g\<lparr>status := ''expired''\<rparr>) (guestFiles s)\<rparr>)"
    using guestDownloadInfo_expired [OF h _ ex] a by simp
  show 2: "findOne_shortUrl (''/g/'' @ c) (guestFiles (snd (guestDownloadInfo e c s)))
          = Some (g\<lparr>status := ''expired''\<rparr>)"
    unfolding 1 using findOne_shortUrl_save [OF h, of "g\<lparr>status := ''expired''\<rparr>"] su by simp
  show "guestDownloadInfo e2 c (snd (guestDownloadInfo e c s))
          = (Inl Unavailable, snd (guestDownloadInfo e c s))"
    using guestDownloadInfo_inactive [OF 2, of e2] by simp
qed

theorem lazy_expiry_on_short_code_witness:
  "findOne_shortUrl (''/f/'' @ ''abc'') (files (ex_state_expiring 999999))
     = Some (ex_file\<lparr>expiresAt := Some 999999\<rparr>)
   \<and> (999999 :: int) < now ex_env
   \<and> downloadInfo ex_env ''abc'' (ex_state_expiring 999999) =
       (Inl Expired,
        (ex_state_expiring 999999)
          \<lparr>files := [ex_file\<lparr>expiresAt := Some 999999, status := ''expired''\<rparr>]\<rparr>)
   \<and> fst (downloadInfo (ex_env\<lparr>now := 1000001\<rparr>) ''abc''
        (snd (downloadInfo ex_env ''abc'' (ex_state_expiring 999999)))) = Inl Unavailable
   \<and> guestDownloadInfo ex_env ''xyz'' (ex_state_expiring 999999) =
       (Inl Expired,
        (ex_state_expiring 999999)
          \<lparr>guestFiles := [ex_file\<lparr>shortUrl := ''/g/xyz'', createdBy := ''guest_q'',
                                  expiresAt := Some 999999, status := ''expired''\<rparr>]\<rparr>)
   \<and> fst (guestDownloadInfo (ex_env\<lparr>now := 1000001\<rparr>) ''xyz''
        (snd (guestDownloadInfo ex_env ''xyz'' (ex_state_expiring 999999)))) = Inl Unavailable"
proof -
  have f: "findOne_shortUrl (''/f/'' @ ''abc'') (files (ex_state_expiring 999999))
     = Some (ex_file\<lparr>expiresAt := Some 999999\<rparr>)"
    by (simp add: ex_defs findOne_shortUrl_def)
  have g: "findOne_shortUrl (''/g/'' @ ''xyz'') (guestFiles (ex_state_expiring 999999))
     = Some (ex_file\<lparr>shortUrl := ''/g/xyz'', createdBy := ''guest_q'', expiresAt := Some 999999\<rparr>)"
    by (simp add: ex_defs findOne_shortUrl_def)
  have t: "(999999 :: int) < now ex_env" by (simp add: ex_env_def)
  have hf: "findOne_shortUrl (''/f/'' @ ''abc'') (files (ex_state_expiring 999999))
        = Some (ex_file\<lparr>expiresAt := Some 999999\<rparr>)
      \<and> status (ex_file\<lparr>expiresAt := Some 999999\<rparr>) = ''active''
      \<and> expiresAt (ex_file\<lparr>expiresAt := Some 999999\<rparr>) = Some 999999
      \<and> 999999 < now ex_env"
    using f t by (simp add: ex_file_def)
  have hg: "findOne_shortUrl (''/g/'' @ ''xyz'') (guestFiles (ex_state_expiring 999999))
        = Some (ex_file\<lparr>shortUrl := ''/g/xyz'', createdBy := ''guest_q'',
                  expiresAt := Some 999999\<rparr>)
      \<and> status (ex_file\<lparr>shortUrl := ''/g/xyz'', createdBy := ''guest_q'',
                  expiresAt := Some 999999\<rparr>) = ''active''
      \<and> expiresAt (ex_file\<lparr>shortUrl := ''/g/xyz'', createdBy := ''guest_q'',
                  expiresAt := Some 999999\<rparr>) = Some 999999
      \<and> 999999 < now ex_env"
    using g t by (simp add: ex_file_def)
  note rf = mp [OF conjunct1 [OF lazy_expiry_on_short_code [of "''abc''"
      "ex_state_expiring 999999" "ex_file\<lparr>expiresAt := Some 999999\<rparr>" 999999 ex_env
      "ex_env\<lparr>now := 1000001\<rparr>"]] hf]
  note rg = mp [OF conjunct2 [OF lazy_expiry_on_short_code [of "''xyz''"
      "ex_state_expiring 999999" _ 999999 ex_env "ex_env\<lparr>now := 1000001\<rparr>"
      "ex_file\<lparr>shortUrl := ''/g/xyz'', createdBy := ''guest_q'', expiresAt := Some 999999\<rparr>"]] hg]
  note cf = rf [THEN conjunct1]
  note cf2 = rf [THEN conjunct2, THEN conjunct2]
  note cg = rg [THEN conjunct1]
  note cg2 = rg [THEN conjunct2, THEN conjunct2]
  have 1: "downloadInfo ex_env ''abc'' (ex_state_expiring 999999) =
       (Inl Expired,
        (ex_state_expiring 999999)
          \<lparr>files := [ex_file\<lparr>expiresAt := Some 999999, status := ''expired''\<rparr>]\<rparr>)"
    unfolding cf by (simp add: ex_defs)
  have 2: "fst (downloadInfo (ex_env\<lparr>now := 1000001\<rparr>) ''abc''
        (snd (downloadInfo ex_env ''abc'' (ex_state_expiring 999999)))) = Inl Unavailable"
    unfolding cf2 by simp
  have 3: "guestDownloadInfo ex_env ''xyz'' (ex_state_expiring 999999) =
       (Inl Expired,
        (ex_state_expiring 999999)
          \<lparr>guestFiles := [ex_file\<lparr>shortUrl := ''/g/xyz'', createdBy := ''guest_q'',
                                  expiresAt := Some 999999, status := ''expired''\<rparr>]\<rparr>)"
    unfolding cg by (simp add: ex_defs)
  have 4: "fst (guestDownloadInfo (ex_env\<lparr>now := 1000001\<rparr>) ''xyz''
        (snd (guestDownloadInfo ex_env ''xyz'' (ex_state_expiring 999999)))) = Inl Unavailable"
    unfolding cg2 by simp
  show ?thesis using f t 1 2 3 4 by blast
qed

text \<open>
  The claim as stated fails twice on the store whose file expired at 999999, the clock
  standing at 1000000. The download by id answers Expired and leaves the store as it
  was, the record's status still \<^verbatim>\<open>active\<close>. The short link answers Expired on the first
  access and Unavailable, not Expired, on the second.
\<close>

theorem lazy_expiry_counterexample:
  "downloadFile ex_env 1 JUndefined (ex_state_expiring 999999)
     = (Inl Expired, ex_state_expiring 999999)
   \<and> map status (files (ex_state_expiring 999999)) = [''active'']
   \<and> fst (downloadInfo ex_env ''abc'' (ex_state_expiring 999999)) = Inl Expired
   \<and> fst (downloadInfo ex_env ''abc''
        (snd (downloadInfo ex_env ''abc'' (ex_state_expiring 999999)))) = Inl Unavailable"
  by (simp add: ex_defs downloadFile_def downloadInfo_def findById_def findOne_shortUrl_def
      expiry_passed_def)

subsection \<open>C3: the short link asks for no password\<close>



section \<open>Passwords, deletion and a single record's expiry\<close>


subsection \<open>C4: setting a password\<close>

text \<open>
  C4 does not hold of the code. \<^verbatim>\<open>updateFilePassword\<close> refuses an empty password
  and otherwise stores the hash of the new one, but it never sets
  \<^verbatim>\<open>isPasswordProtected\<close>, which the upload handlers set together with the hash. On the
  unprotected file of the example store, setting the password \<^verbatim>\<open>secret\<close> succeeds and
  stores the hash; the record is still unprotected, and the download by id hands out the
  signed URL without any password.
\<close>

theorem updateFilePassword_leaves_unprotected:
  "isPasswordProtected ex_file = False
   \<and> updateFilePassword ex_env 1 (JStr ''secret'') ex_state
       = (Inr (), ex_state\<lparr>files := [ex_file\<lparr>password := Some ''$2a$10$secret''\<rparr>]\<rparr>)
   \<and> map isPasswordProtected
         (files (snd (updateFilePassword ex_env 1 (JStr ''secret'') ex_state))) = [False]
   \<and> fst (downloadFile ex_env 1 JUndefined
         (snd (updateFilePassword ex_env 1 (JStr ''secret'') ex_state)))
       = Inr ''http://localhost:9000/pastebox/file-share-app/report_v1.pdf_a1.pdf?signed''
   \<and> updateFilePassword ex_env 1 (JStr []) ex_state = (Inl NewPasswordRequired, ex_state)"
  by (simp add: ex_defs updateFilePassword_def downloadFile_def findById_def hash_password_def
      expiry_passed_def signedDownloadUrl_def buildKey_def template_def findUserById_def)

subsection \<open>C6: deleting a share\<close>

text \<open>
  C6. \<^verbatim>\<open>deleteFile\<close> fails with NotFound (404) when no record has the identifier and
  with AlreadyDeleted (400) whenever the record's status is \<^verbatim>\<open>deleted\<close>, whatever its other
  fields are; neither touches the state. Otherwise the blob is deleted first: when that
  command throws, the handler answers 500 with the exception's message and the state,
  the record included, is as it was; when it succeeds, the key is gone from the bucket
  and then the record is removed from the collection.
\<close>

theorem deleteFile_blob_then_record:
  "(findById i (files s) = None \<longrightarrow> deleteFile e i s = (Inl NotFound, s))
   \<and> (findById i (files s) = Some f \<and> status f = ''deleted'' \<longrightarrow>
        deleteFile e i s = (Inl AlreadyDeleted, s))
   \<and> (findById i (files s) = Some f \<and> status f \<noteq> ''deleted'' \<and>
        s3_fault e (DeleteObjectCommand (AWS_BUCKET_NAME e) (buildKey (name f))) = Some msg \<longrightarrow>
        deleteFile e i s = (Inl (Internal msg), s))
   \<and> (findById i (files s) = Some f \<and> status f \<noteq> ''deleted'' \<and>
        s3_fault e (DeleteObjectCommand (AWS_BUCKET_NAME e) (buildKey (name f))) = None \<longrightarrow>
        deleteFile e i s =
          (Inr (), s\<lparr>blobs := removeAll (buildKey (name f)) (blobs s),
                       files := deleteOne i (files s)\<rparr>)
        \<and> buildKey (name f) \<notin> set (blobs (snd (deleteFile e i s)))
        \<and> length (files (snd (deleteFile e i s))) < length (files s)
        \<and> (distinct (map fid (files s)) \<longrightarrow>
             findById i (files (snd (deleteFile e i s))) = None))
   \<and> status_code NotFound = 404 \<and> status_code AlreadyDeleted = 400
   \<and> status_code (Internal msg) = 500"
proof -
  have len: "length (deleteOne i fs) < length fs" if "findById i fs = Some f" for fs
    using that unfolding findById_def by (induction fs) (auto split: if_splits)
  have gone: "findById i (deleteOne i fs) = None" if "distinct (map fid fs)" for fs
    using that unfolding findById_def
    by (induction fs) (auto simp: find_None_iff image_iff)
  have ok: "deleteFile e i s =
          (Inr (), s\<lparr>blobs := removeAll (buildKey (name f)) (blobs s),
                       files := deleteOne i (files s)\<rparr>)"
    if "findById i (files s) = Some f" "status f \<noteq> ''deleted''"
      "s3_fault e (DeleteObjectCommand (AWS_BUCKET_NAME e) (buildKey (name f))) = None"
    using that by (simp add: deleteFile_def minio_send_def)
  show ?thesis
    using ok len [of "files s"] gone [of "files s"]
    by (auto simp: deleteFile_def minio_send_def)
qed

theorem deleteFile_blob_then_record_witness:
  "findById 1 (files ex_state) = Some ex_file \<and> status ex_file \<noteq> ''deleted''
   \<and> findById 2 (files ex_state) = None
   \<and> deleteFile ex_env 2 ex_state = (Inl NotFound, ex_state)
   \<and> deleteFile ex_env 1 (ex_state\<lparr>files := [ex_file\<lparr>status := ''deleted''\<rparr>]\<rparr>)
       = (Inl AlreadyDeleted, ex_state\<lparr>files := [ex_file\<lparr>status := ''deleted''\<rparr>]\<rparr>)
   \<and> deleteFile (ex_env\<lparr>s3_fault := (\<lambda>c. Some ''connect ECONNREFUSED'')\<rparr>) 1 ex_state
       = (Inl (Internal ''connect ECONNREFUSED''), ex_state)
   \<and> deleteFile ex_env 1 ex_state = (Inr (), ex_state\<lparr>blobs := [], files := []\<rparr>)"
proof -
  have f: "findById 1 (files ex_state) = Some ex_file"
    by (simp add: ex_defs findById_def)
  have n: "findById 2 (files ex_state) = None"
    by (simp add: ex_defs findById_def)
  have d: "findById 1 (files (ex_state\<lparr>files := [ex_file\<lparr>status := ''deleted''\<rparr>]\<rparr>))
      = Some (ex_file\<lparr>status := ''deleted''\<rparr>)"
    by (simp add: ex_defs findById_def)
  have st: "status ex_file \<noteq> ''deleted''" by (simp add: ex_file_def)
  have 1: "deleteFile ex_env 2 ex_state = (Inl NotFound, ex_state)"
    using deleteFile_blob_then_record [of 2 ex_state ex_env] n by simp
  have 2: "deleteFile ex_env 1 (ex_state\<lparr>files := [ex_file\<lparr>status := ''deleted''\<rparr>]\<rparr>)
       = (Inl AlreadyDeleted, ex_state\<lparr>files := [ex_file\<lparr>status := ''deleted''\<rparr>]\<rparr>)"
    using deleteFile_blob_then_record [of 1 "ex_state\<lparr>files := [ex_file\<lparr>status := ''deleted''\<rparr>]\<rparr>"
        ex_env "ex_file\<lparr>status := ''deleted''\<rparr>"] d
    by simp
  have 3: "deleteFile (ex_env\<lparr>s3_fault := (\<lambda>c. Some ''connect ECONNREFUSED'')\<rparr>) 1 ex_state
       = (Inl (Internal ''connect ECONNREFUSED''), ex_state)"
    using deleteFile_blob_then_record [of 1 ex_state
        "ex_env\<lparr>s3_fault := (\<lambda>c. Some ''connect ECONNREFUSED'')\<rparr>" ex_file
        "''connect ECONNREFUSED''"] f st
    by simp
  have 4: "deleteFile ex_env 1 ex_state = (Inr (), ex_state\<lparr>blobs := [], files := []\<rparr>)"
    using deleteFile_blob_then_record [of 1 ex_state ex_env ex_file] f st
    by (simp add: ex_defs buildKey_def)
  show ?thesis using f n st 1 2 3 4 by blast
qed

subsection \<open>C9: verifying a password changes nothing\<close>

text \<open>
  C9. \<^verbatim>\<open>verifyFilePassword\<close> and \<^verbatim>\<open>verifyGuestFilePassword\<close> leave the whole state as it
  is in every case, so no record's \<^verbatim>\<open>downloadedContent\<close> or status changes and no download
  is counted. They fail with NotProtected (400) when the short code finds no record or a
  record without password protection; for a protected record with a stored hash they
  answer by comparing the supplied password with that hash: success when it matches,
  WrongPassword (401) when it does not.
\<close>

theorem verifyPassword_changes_nothing:
  "snd (verifyFilePassword e c pw s) = s \<and> snd (verifyGuestFilePassword e c pw s) = s
   \<and> (findOne_shortUrl (''/f/'' @ c) (files s) = None \<longrightarrow>
        fst (verifyFilePassword e c pw s) = Inl NotProtected)
   \<and> (findOne_shortUrl (''/g/'' @ c) (guestFiles s) = None \<longrightarrow>
        fst (verifyGuestFilePassword e c pw s) = Inl NotProtected)
   \<and> (\<forall>f. findOne_shortUrl (''/f/'' @ c) (files s) = Some f \<and> \<not> isPasswordProtected f \<longrightarrow>
        fst (verifyFilePassword e c pw s) = Inl NotProtected)
   \<and> (\<forall>f. findOne_shortUrl (''/g/'' @ c) (guestFiles s) = Some f \<and> \<not> isPasswordProtected f \<longrightarrow>
        fst (verifyGuestFilePassword e c pw s) = Inl NotProtected)
   \<and> (\<forall>f p h. findOne_shortUrl (''/f/'' @ c) (files s) = Some f \<and> isPasswordProtected f \<and>
          password f = Some h \<longrightarrow>
        fst (verifyFilePassword e c (JStr p) s)
          = (if bcrypt_compare e p h then Inr () else Inl WrongPassword))
   \<and> (\<forall>f p h. findOne_shortUrl (''/g/'' @ c) (guestFiles s) = Some f \<and> isPasswordProtected f \<and>
          password f = Some h \<longrightarrow>
        fst (verifyGuestFilePassword e c (JStr p) s)
          = (if bcrypt_compare e p h then Inr () else Inl WrongPassword))
   \<and> status_code NotProtected = 400 \<and> status_code WrongPassword = 401"
proof -
  have 1: "snd (verifyFilePassword e c pw s) = s"
    by (simp add: verifyFilePassword_def split: option.splits sum.splits)
  have 2: "snd (verifyGuestFilePassword e c pw s) = s"
    by (simp add: verifyGuestFilePassword_def split: option.splits sum.splits)
  have 3: "fst (verifyFilePassword e c (JStr p) s)
          = (if bcrypt_compare e p h then Inr () else Inl WrongPassword)"
    if "findOne_shortUrl (''/f/'' @ c) (files s) = Some f" "isPasswordProtected f"
      "password f = Some h" for f p h
    using that by (simp add: verifyFilePassword_def compare_password_def)
  have 4: "fst (verifyGuestFilePassword e c (JStr p) s)
          = (if bcrypt_compare e p h then Inr () else Inl WrongPassword)"
    if "findOne_shortUrl (''/g/'' @ c) (guestFiles s) = Some f" "isPasswordProtected f"
      "password f = Some h" for f p h
    using that by (simp add: verifyGuestFilePassword_def compare_password_def)
  have 5: "fst (verifyFilePassword e c pw s) = Inl NotProtected"
    if "findOne_shortUrl (''/f/'' @ c) (files s) = None
        \<or> (\<exists>f. findOne_shortUrl (''/f/'' @ c) (files s) = Some f \<and> \<not> isPasswordProtected f)"
    using that by (auto simp: verifyFilePassword_def)
  have 6: "fst (verifyGuestFilePassword e c pw s) = Inl NotProtected"
    if "findOne_shortUrl (''/g/'' @ c) (guestFiles s) = None
        \<or> (\<exists>f. findOne_shortUrl (''/g/'' @ c) (guestFiles s) = Some f \<and> \<not> isPasswordProtected f)"
    using that by (auto simp: verifyGuestFilePassword_def)
  show ?thesis using 1 2 3 4 5 6 by simp
qed

theorem verifyPassword_changes_nothing_witness:
  "findOne_shortUrl (''/f/'' @ ''abc'') (files ex_state_protected) = Some ex_protected
   \<and> isPasswordProtected ex_protected \<and> password ex_protected = Some ''$2a$10$secret''
   \<and> verifyFilePassword ex_env ''abc'' (JStr ''secret'') ex_state_protected
       = (Inr (), ex_state_protected)
   \<and> verifyFilePassword ex_env ''abc'' (JStr ''guess'') ex_state_protected
       = (Inl WrongPassword, ex_state_protected)
   \<and> verifyFilePassword ex_env ''abc'' (JStr ''secret'') ex_state = (Inl NotProtected, ex_state)
   \<and> verifyGuestFilePassword ex_env ''nope'' (JStr ''secret'') ex_state_protected
       = (Inl NotProtected, ex_state_protected)
   \<and> verifyGuestFilePassword ex_env ''xyz'' (JStr ''secret'') ex_state_protected
       = (Inr (), ex_state_protected)"
proof -
  have f: "findOne_shortUrl (''/f/'' @ ''abc'') (files ex_state_protected) = Some ex_protected"
    by (simp add: ex_defs findOne_shortUrl_def)
  have g: "findOne_shortUrl (''/g/'' @ ''xyz'') (guestFiles ex_state_protected)
      = Some (ex_protected\<lparr>shortUrl := ''/g/xyz'', createdBy := ''guest_q''\<rparr>)"
    by (simp add: ex_defs findOne_shortUrl_def)
  have u: "findOne_shortUrl (''/f/'' @ ''abc'') (files ex_state) = Some ex_file"
    by (simp add: ex_defs findOne_shortUrl_def)
  have n: "findOne_shortUrl (''/g/'' @ ''nope'') (guestFiles ex_state_protected) = None"
    by (simp add: ex_defs findOne_shortUrl_def)
  have p: "isPasswordProtected ex_protected" "password ex_protected = Some ''$2a$10$secret''"
    "\<not> isPasswordProtected ex_file"
    by (simp_all add: ex_defs)
  have c: "bcrypt_compare ex_env ''secret'' ''$2a$10$secret''"
    "\<not> bcrypt_compare ex_env ''guess'' ''$2a$10$secret''"
    by (simp_all add: ex_env_def)
  have 1: "verifyFilePassword ex_env ''abc'' (JStr ''secret'') ex_state_protected
       = (Inr (), ex_state_protected)"
    using verifyPassword_changes_nothing [of ex_env "''abc''" "JStr ''secret''" ex_state_protected]
      f p c
    by (auto simp: prod_eq_iff)
  have 2: "verifyFilePassword ex_env ''abc'' (JStr ''guess'') ex_state_protected
       = (Inl WrongPassword, ex_state_protected)"
    using verifyPassword_changes_nothing [of ex_env "''abc''" "JStr ''guess''" ex_state_protected]
      f p c
    by (auto simp: prod_eq_iff)
  have 3: "verifyFilePassword ex_env ''abc'' (JStr ''secret'') ex_state = (Inl NotProtected, ex_state)"
    using verifyPassword_changes_nothing [of ex_env "''abc''" "JStr ''secret''" ex_state] u p
    by (auto simp: prod_eq_iff)
  have 4: "verifyGuestFilePassword ex_env ''nope'' (JStr ''secret'') ex_state_protected
       = (Inl NotProtected, ex_state_protected)"
    using verifyPassword_changes_nothing [of ex_env "''nope''" "JStr ''secret''" ex_state_protected] n
    by (auto simp: prod_eq_iff)
  have 5: "verifyGuestFilePassword ex_env ''xyz'' (JStr ''secret'') ex_state_protected
       = (Inr (), ex_state_protected)"
    using verifyPassword_changes_nothing [of ex_env "''xyz''" "JStr ''secret''" ex_state_protected]
      g p c
    by (auto simp: prod_eq_iff ex_protected_def)
  show ?thesis using f p 1 2 3 4 5 by blast
qed

subsection \<open>C10: setting one record's expiry\<close>



section \<open>The sweep over all records\<close>

lemma save_at:
  "\<forall>g \<in> set pre. fid g \<noteq> fid f' \<Longrightarrow> fid f = fid f' \<Longrightarrow>
   save f' (pre @ f # post) = pre @ f' # post"
  by (induction pre) auto

lemma fid_swept: "fid (swept e f) = fid f"
  by (simp add: swept_def)

lemma swept_not_deleted: "status f \<noteq> ''deleted'' \<Longrightarrow> status (swept e f) \<noteq> ''deleted''"
  by (simp add: swept_def)

lemma sweep_loop_eq:
  "distinct (map fid (pre @ xs)) \<Longrightarrow>
   sweep_loop e xs upd (pre @ xs) =
     (upd @ map (swept e) (filter (\<lambda>f. status f \<noteq> ''deleted'') xs),
      pre @ map (\<lambda>f. if status f = ''deleted'' then f else swept e f) xs)"
proof (induction xs arbitrary: pre upd)
  case Nil
  then show ?case by simp
next
  case (Cons x xs)
  show ?case
  proof (cases "status x = ''deleted''")
    case True
    have "distinct (map fid ((pre @ [x]) @ xs))" using Cons.prems by simp
    from Cons.IH [OF this, of upd] show ?thesis using True by simp
  next
    case False
    have pre: "\<forall>g \<in> set pre. fid g \<noteq> fid (swept e x)"
      using Cons.prems by (auto simp: fid_swept image_iff)
    have sv: "save (swept e x) (pre @ x # xs) = pre @ swept e x # xs"
      using pre by (rule save_at) (simp add: fid_swept)
    have "distinct (map fid ((pre @ [swept e x]) @ xs))"
      using Cons.prems by (simp add: fid_swept)
    from Cons.IH [OF this, of "upd @ [swept e x]"] show ?thesis
      using False sv by (simp add: swept_def [symmetric] Let_def)
  qed
qed

lemma filter_swept:
  "filter (\<lambda>f. status f \<noteq> ''deleted'')
     (map (\<lambda>f. if status f = ''deleted'' then f else swept e f) xs)
   = map (swept e) (filter (\<lambda>f. status f \<noteq> ''deleted'') xs)"
  by (induction xs) (auto simp: swept_not_deleted)

lemma updateAllFileExpiry_eq:
  assumes "files s \<noteq> []" and "distinct (map fid (files s))"
  shows "updateAllFileExpiry e s =
    (Inr (map (swept e) (filter (\<lambda>f. status f \<noteq> ''deleted'') (files s))),
     s\<lparr>files := map (\<lambda>f. if status f = ''deleted'' then f else swept e f) (files s)\<rparr>)"
  using assms sweep_loop_eq [of "[]" "files s" e "[]"]
  by (simp add: updateAllFileExpiry_def)

subsection \<open>C7: the sweep\<close>

text \<open>
  C7. \<^verbatim>\<open>updateAllFileExpiry\<close> fails with NotFound (404) when the collection is empty.
  Otherwise (the identifiers of the collection being distinct, as the store has them) it
  keeps the collection's length and order and, position by position: leaves a record of
  status \<^verbatim>\<open>deleted\<close> as it is; sets status \<^verbatim>\<open>expired\<close> and \<^verbatim>\<open>hasExpiry = true\<close> on a record
  whose \<^verbatim>\<open>expiresAt\<close> is in the past; and on every other record sets \<^verbatim>\<open>expiresAt\<close> to now
  plus 10 days (864000000 ms) and \<^verbatim>\<open>hasExpiry = true\<close>. It returns the updated records,
  which are the records of the new collection that are not deleted, in order.
\<close>

theorem updateAllFileExpiry_sweeps:
  "(files s = [] \<longrightarrow> updateAllFileExpiry e s = (Inl NoFilesFound, s))
   \<and> (files s \<noteq> [] \<and> distinct (map fid (files s)) \<longrightarrow>
        (\<exists>fs'. updateAllFileExpiry e s =
                 (Inr (filter (\<lambda>f. status f \<noteq> ''deleted'') fs'), s\<lparr>files := fs'\<rparr>)
           \<and> length fs' = length (files s)
           \<and> (\<forall>k < length (files s).
                 (status (files s ! k) = ''deleted'' \<longrightarrow> fs' ! k = files s ! k)
               \<and> (status (files s ! k) \<noteq> ''deleted'' \<and>
                    (\<exists>t. expiresAt (files s ! k) = Some t \<and> t < now e) \<longrightarrow>
                    fs' ! k = (files s ! k)\<lparr>status := ''expired'', hasExpiry := True\<rparr>)
               \<and> (status (files s ! k) \<noteq> ''deleted'' \<and>
                    \<not> (\<exists>t. expiresAt (files s ! k) = Some t \<and> t < now e) \<longrightarrow>
                    fs' ! k = (files s ! k)\<lparr>expiresAt := Some (now e + 864000000),
                                             hasExpiry := True\<rparr>))))
   \<and> status_code NoFilesFound = 404"
proof (intro conjI impI)
  show "updateAllFileExpiry e s = (Inl NoFilesFound, s)" if "files s = []"
    using that by (simp add: updateAllFileExpiry_def)
  show "status_code NoFilesFound = 404" by simp
  assume a: "files s \<noteq> [] \<and> distinct (map fid (files s))"
  let ?fs' = "map (\<lambda>f. if status f = ''deleted'' then f else swept e f) (files s)"
  have 1: "updateAllFileExpiry e s =
      (Inr (filter (\<lambda>f. status f \<noteq> ''deleted'') ?fs'), s\<lparr>files := ?fs'\<rparr>)"
    using updateAllFileExpiry_eq [of s e] a by (simp add: filter_swept)
  have 2: "length ?fs' = length (files s)" by simp
  have 3: "\<forall>k < length (files s).
                 (status (files s ! k) = ''deleted'' \<longrightarrow> ?fs' ! k = files s ! k)
               \<and> (status (files s ! k) \<noteq> ''deleted'' \<and>
                    (\<exists>t. expiresAt (files s ! k) = Some t \<and> t < now e) \<longrightarrow>
                    ?fs' ! k = (files s ! k)\<lparr>status := ''expired'', hasExpiry := True\<rparr>)
               \<and> (status (files s ! k) \<noteq> ''deleted'' \<and>
                    \<not> (\<exists>t. expiresAt (files s ! k) = Some t \<and> t < now e) \<longrightarrow>
                    ?fs' ! k = (files s ! k)\<lparr>expiresAt := Some (now e + 864000000),
                                             hasExpiry := True\<rparr>)"
    by (auto simp: swept_def expiry_passed_iff)
  show "\<exists>fs'. updateAllFileExpiry e s =
                 (Inr (filter (\<lambda>f. status f \<noteq> ''deleted'') fs'), s\<lparr>files := fs'\<rparr>)
           \<and> length fs' = length (files s)
           \<and> (\<forall>k < length (files s).
                 (status (files s ! k) = ''deleted'' \<longrightarrow> fs' ! k = files s ! k)
               \<and> (status (files s ! k) \<noteq> ''deleted'' \<and>
                    (\<exists>t. expiresAt (files s ! k) = Some t \<and> t < now e) \<longrightarrow>
                    fs' ! k = (files s ! k)\<lparr>status := ''expired'', hasExpiry := True\<rparr>)
               \<and> (status (files s ! k) \<noteq> ''deleted'' \<and>
                    \<not> (\<exists>t. expiresAt (files s ! k) = Some t \<and> t < now e) \<longrightarrow>
                    fs' ! k = (files s ! k)\<lparr>expiresAt := Some (now e + 864000000),
                                             hasExpiry := True\<rparr>))"
    using 1 2 3 by (intro exI [of _ ?fs'] conjI)
qed

theorem updateAllFileExpiry_sweeps_witness:
  "files ex_state_mixed \<noteq> [] \<and> distinct (map fid (files ex_state_mixed))
   \<and> updateAllFileExpiry ex_env ex_state_mixed =
       (Inr [ex_file\<lparr>fid := 2, shortUrl := ''/f/old'', expiresAt := Some 999999,
                     status := ''expired'', hasExpiry := True\<rparr>,
             ex_file\<lparr>fid := 3, shortUrl := ''/f/new'', expiresAt := Some 865000000,
                     hasExpiry := True\<rparr>],
        ex_state_mixed
          \<lparr>files := [ex_file\<lparr>status := ''deleted''\<rparr>,
                      ex_file\<lparr>fid := 2, shortUrl := ''/f/old'', expiresAt := Some 999999,
                              status := ''expired'', hasExpiry := True\<rparr>,
                      ex_file\<lparr>fid := 3, shortUrl := ''/f/new'', expiresAt := Some 865000000,
                              hasExpiry := True\<rparr>]\<rparr>)
   \<and> updateAllFileExpiry ex_env (ex_state\<lparr>files := []\<rparr>)
       = (Inl NoFilesFound, ex_state\<lparr>files := []\<rparr>)"
proof -
  have ne: "files ex_state_mixed \<noteq> []" and d: "distinct (map fid (files ex_state_mixed))"
    and len: "length (files ex_state_mixed) = 3"
    by (simp_all add: ex_defs)
  have three: "xs = [xs ! 0, xs ! 1, xs ! 2]" if "length xs = 3" for xs :: "filedoc list"
    using that by (auto simp: numeral_3_eq_3 length_Suc_conv)
  from updateAllFileExpiry_sweeps [of ex_state_mixed ex_env] ne d len
  obtain fs' where r: "updateAllFileExpiry ex_env ex_state_mixed =
        (Inr (filter (\<lambda>f. status f \<noteq> ''deleted'') fs'), ex_state_mixed\<lparr>files := fs'\<rparr>)"
    and l: "length fs' = 3"
    and k: "\<forall>k < 3.
         (status (files ex_state_mixed ! k) = ''deleted'' \<longrightarrow> fs' ! k = files ex_state_mixed ! k)
       \<and> (status (files ex_state_mixed ! k) \<noteq> ''deleted'' \<and>
            (\<exists>t. expiresAt (files ex_state_mixed ! k) = Some t \<and> t < now ex_env) \<longrightarrow>
            fs' ! k = (files ex_state_mixed ! k)\<lparr>status := ''expired'', hasExpiry := True\<rparr>)
       \<and> (status (files ex_state_mixed ! k) \<noteq> ''deleted'' \<and>
            \<not> (\<exists>t. expiresAt (files ex_state_mixed ! k) = Some t \<and> t < now ex_env) \<longrightarrow>
            fs' ! k = (files ex_state_mixed ! k)\<lparr>expiresAt := Some (now ex_env + 864000000),
                                                hasExpiry := True\<rparr>)"
    by auto
  have k0: "fs' ! 0 = ex_file\<lparr>status := ''deleted''\<rparr>"
    using k [rule_format, of 0] by (simp add: ex_defs)
  have k1: "fs' ! 1 = ex_file\<lparr>fid := 2, shortUrl := ''/f/old'', expiresAt := Some 999999,
                     status := ''expired'', hasExpiry := True\<rparr>"
    using k [rule_format, of 1] by (simp add: ex_defs)
  have k2: "fs' ! 2 = ex_file\<lparr>fid := 3, shortUrl := ''/f/new'', expiresAt := Some 865000000,
                     hasExpiry := True\<rparr>"
    using k [rule_format, of 2] by (simp add: ex_defs)
  have fs': "fs' = [ex_file\<lparr>status := ''deleted''\<rparr>,
                      ex_file\<lparr>fid := 2, shortUrl := ''/f/old'', expiresAt := Some 999999,
                              status := ''expired'', hasExpiry := True\<rparr>,
                      ex_file\<lparr>fid := 3, shortUrl := ''/f/new'', expiresAt := Some 865000000,
                              hasExpiry := True\<rparr>]"
    using three [OF l] k0 k1 k2 by simp
  have 1: "updateAllFileExpiry ex_env ex_state_mixed =
       (Inr [ex_file\<lparr>fid := 2, shortUrl := ''/f/old'', expiresAt := Some 999999,
                     status := ''expired'', hasExpiry := True\<rparr>,
             ex_file\<lparr>fid := 3, shortUrl := ''/f/new'', expiresAt := Some 865000000,
                     hasExpiry := True\<rparr>],
        ex_state_mixed
          \<lparr>files := [ex_file\<lparr>status := ''deleted''\<rparr>,
                      ex_file\<lparr>fid := 2, shortUrl := ''/f/old'', expiresAt := Some 999999,
                              status := ''expired'', hasExpiry := True\<rparr>,
                      ex_file\<lparr>fid := 3, shortUrl := ''/f/new'', expiresAt := Some 865000000,
                              hasExpiry := True\<rparr>]\<rparr>)"
    unfolding r fs' by (simp add: ex_file_def)
  have 2: "updateAllFileExpiry ex_env (ex_state\<lparr>files := []\<rparr>)
       = (Inl NoFilesFound, ex_state\<lparr>files := []\<rparr>)"
    using updateAllFileExpiry_sweeps [of "ex_state\<lparr>files := []\<rparr>" ex_env] by simp
  show ?thesis using ne d 1 2 by blast
qed

section \<open>Uploads\<close>





subsection \<open>C8: the expiry of an uploaded file\<close>



section \<open>Share links\<close>







subsection \<open>C5: a new short link\<close>




end
